theory Spec2Isabelle
  imports Main
begin

section \<open>The public API of ucp: one lazily created application context\<close>

text \<open>
  The module \<^verbatim>\<open>ucp/public_api.py\<close> keeps one module global, \<^verbatim>\<open>_ctx\<close>, which is
  either \<^verbatim>\<open>None\<close> or a reference to an \<^verbatim>\<open>ApplicationContext\<close> object. Every public
  function reads or rebinds that global. The embedding passes the state explicitly:
  the global, the objects constructed so far (an object's address is its index), and
  the process environment \<^verbatim>\<open>os.environ\<close> that \<^verbatim>\<open>init\<close> reads.
\<close>

subsection \<open>Data\<close>

text \<open>
  A Python \<^verbatim>\<open>dict\<close> of options, and \<^verbatim>\<open>os.environ\<close>, as association lists in
  insertion order.
\<close>

type_synonym dict = "(string \<times> string) list"

type_synonym addr = nat

text \<open>
  The only exception the module raises itself: the \<^verbatim>\<open>RuntimeError\<close> of \<^verbatim>\<open>init\<close>,
  with its message.
\<close>

datatype error = RuntimeError string

definition AlreadyInitialized :: error where
  "AlreadyInitialized =
     RuntimeError (''UCX is already initiated. Call reset() and init() '' @
                   ''in order to re-initate UCX with new options.'')"

text \<open>
  Modelled from the spec: the class \<^verbatim>\<open>ApplicationContext\<close> of \<^verbatim>\<open>ucp/_libs/core\<close>, which
  is not among the sources. A Context holds the options mapping it was constructed
  with; the object is represented by what the module hands to its constructor
  (\<open>None\<close> when the constructor is called without an argument, as \<^verbatim>\<open>_get_ctx\<close>
  does). The spec names no failure of the construction, so constructing always
  yields an object.
\<close>

datatype ApplicationContext = ApplicationContext (ctor_options: "dict option")

text \<open>
  Modelled from the spec: the default of the constructor's options parameter, which
  is declared in \<^verbatim>\<open>ucp/_libs/core\<close>. A context constructed without an argument
  uses the default options, and these are empty.
\<close>

definition options_of :: "ApplicationContext \<Rightarrow> dict" where
  "options_of c = (case ctor_options c of None \<Rightarrow> [] | Some d \<Rightarrow> d)"

text \<open>
  The methods of an \<^verbatim>\<open>ApplicationContext\<close> that the module calls, with their
  arguments. What such a call returns (or raises) is decided inside
  \<^verbatim>\<open>ucp/_libs/core\<close>; the module passes it on, so the embedding returns the call
  itself: \<open>OnContext a m\<close> is the outcome of method \<open>m\<close> on the object at address
  \<open>a\<close>, and \<open>Core_get_config\<close> the outcome of the module-level function
  \<^verbatim>\<open>core.get_config()\<close>. The type \<open>'f\<close> is the type of listener callbacks.
\<close>

datatype 'f ctx_method =
    M_create_listener 'f "int option"
  | M_create_endpoint string int
  | M_progress
  | M_get_ucp_worker
  | M_get_config

datatype 'f outcome = OnContext addr "'f ctx_method" | Core_get_config

text \<open>
  The state: \<open>ctx\<close> is the module global \<^verbatim>\<open>_ctx\<close>, \<open>heap\<close> holds every
  \<^verbatim>\<open>ApplicationContext\<close> constructed so far, \<open>environ\<close> is \<^verbatim>\<open>os.environ\<close>.
\<close>

record process =
  ctx :: "addr option"
  heap :: "ApplicationContext list"
  environ :: dict

text \<open>The state after the module is imported: \<^verbatim>\<open>_ctx = None\<close>, nothing constructed.\<close>

definition initial_process :: "dict \<Rightarrow> process" where
  "initial_process env = \<lparr>ctx = None, heap = [], environ = env\<rparr>"

subsection \<open>Dictionary operations used by \<^verbatim>\<open>init\<close>\<close>

definition dict_keys :: "dict \<Rightarrow> string list" where
  "dict_keys d = map fst d"

text \<open>\<^verbatim>\<open>k in d\<close>\<close>

definition dict_contains :: "string \<Rightarrow> dict \<Rightarrow> bool" where
  "dict_contains k d = (k \<in> set (dict_keys d))"

text \<open>\<^verbatim>\<open>del d[k]\<close>, reached only when \<^verbatim>\<open>k in d\<close>.\<close>

definition dict_del :: "string \<Rightarrow> dict \<Rightarrow> dict" where
  "dict_del k d = filter (\<lambda>kv. fst kv \<noteq> k) d"

text \<open>
  The loop of \<^verbatim>\<open>init\<close>:
  \<^verbatim>\<open>for k in os.environ.keys(): if k in options: del options[k]\<close>.
  It works on the caller's dictionary object; the result is the content of that
  object after the loop.
\<close>

fun del_env_keys :: "string list \<Rightarrow> dict \<Rightarrow> dict" where
  "del_env_keys [] options = options"
| "del_env_keys (k # ks) options =
     del_env_keys ks (if dict_contains k options then dict_del k options else options)"

subsection \<open>The module's functions\<close>

text \<open>
  Constructing an \<^verbatim>\<open>ApplicationContext\<close> allocates a new object; its address is
  returned.
\<close>

definition new_ApplicationContext :: "dict option \<Rightarrow> process \<Rightarrow> addr \<times> process" where
  "new_ApplicationContext args s =
     (length (heap s), s\<lparr>heap := heap s @ [ApplicationContext args]\<rparr>)"

text \<open>\<^verbatim>\<open>_get_ctx\<close> (the leading underscore is not a legal start of a name here).\<close>

definition get_ctx :: "process \<Rightarrow> addr \<times> process" where
  "get_ctx s =
     (case ctx s of
        None \<Rightarrow> (let (a, s') = new_ApplicationContext None s in (a, s'\<lparr>ctx := Some a\<rparr>))
      | Some a \<Rightarrow> (a, s))"

text \<open>
  \<^verbatim>\<open>init(options, env_takes_precedence)\<close>. The result has three parts: the
  exception raised or \<^verbatim>\<open>None\<close> returned, the state, and the content of the
  caller's \<^verbatim>\<open>options\<close> object after the call (the loop deletes from that very
  object).
\<close>

definition init :: "process \<Rightarrow> dict \<Rightarrow> bool \<Rightarrow> (error + unit) \<times> process \<times> dict" where
  "init s options env_takes_precedence =
     (if ctx s \<noteq> None then (Inl AlreadyInitialized, s, options)
      else
        let options' = (if env_takes_precedence
                        then del_env_keys (dict_keys (environ s)) options
                        else options);
            (a, s') = new_ApplicationContext (Some options') s
        in (Inr (), s'\<lparr>ctx := Some a\<rparr>, options'))"

definition create_listener :: "process \<Rightarrow> 'f \<Rightarrow> int option \<Rightarrow> 'f outcome \<times> process" where
  "create_listener s callback_func port =
     (let (a, s') = get_ctx s in (OnContext a (M_create_listener callback_func port), s'))"

text \<open>
  \<^verbatim>\<open>create_endpoint\<close> is a coroutine function; this is its body, run when the
  coroutine is first driven.
\<close>

definition create_endpoint :: "process \<Rightarrow> string \<Rightarrow> int \<Rightarrow> 'f outcome \<times> process" where
  "create_endpoint s ip_address port =
     (let (a, s') = get_ctx s in (OnContext a (M_create_endpoint ip_address port), s'))"

definition progress :: "process \<Rightarrow> 'f outcome \<times> process" where
  "progress s = (let (a, s') = get_ctx s in (OnContext a M_progress, s'))"

definition get_ucp_worker :: "process \<Rightarrow> 'f outcome \<times> process" where
  "get_ucp_worker s = (let (a, s') = get_ctx s in (OnContext a M_get_ucp_worker, s'))"

definition get_config :: "process \<Rightarrow> 'f outcome \<times> process" where
  "get_config s =
     (if ctx s = None then (Core_get_config, s)
      else (let (a, s') = get_ctx s in (OnContext a M_get_config, s')))"

definition reset :: "process \<Rightarrow> process" where
  "reset s = s\<lparr>ctx := None\<rparr>"

subsection \<open>Sequences of calls\<close>

datatype 'f call =
    Call_init dict bool
  | Call_get_ctx
  | Call_create_listener 'f "int option"
  | Call_create_endpoint string int
  | Call_progress
  | Call_get_ucp_worker
  | Call_get_config
  | Call_reset

datatype 'f ret = Ret_None | Ret_ctx addr | Ret_outcome "'f outcome"

text \<open>One call: what the caller gets (an exception of the module or a value) and the state.\<close>

fun api :: "process \<Rightarrow> 'f call \<Rightarrow> (error + 'f ret) \<times> process" where
  "api s (Call_init options env_takes_precedence) =
     (case init s options env_takes_precedence of
        (Inl e, s', _) \<Rightarrow> (Inl e, s')
      | (Inr _, s', _) \<Rightarrow> (Inr Ret_None, s'))"
| "api s Call_get_ctx = (let (a, s') = get_ctx s in (Inr (Ret_ctx a), s'))"
| "api s (Call_create_listener callback_func port) =
     (let (r, s') = create_listener s callback_func port in (Inr (Ret_outcome r), s'))"
| "api s (Call_create_endpoint ip_address port) =
     (let (r, s') = create_endpoint s ip_address port in (Inr (Ret_outcome r), s'))"
| "api s Call_progress = (let (r, s') = progress s in (Inr (Ret_outcome r), s'))"
| "api s Call_get_ucp_worker = (let (r, s') = get_ucp_worker s in (Inr (Ret_outcome r), s'))"
| "api s Call_get_config = (let (r, s') = get_config s in (Inr (Ret_outcome r), s'))"
| "api s Call_reset = (Inr Ret_None, reset s)"

fun run :: "process \<Rightarrow> 'f call list \<Rightarrow> process" where
  "run s [] = s"
| "run s (c # cs) = run (snd (api s c)) cs"

fun trace :: "process \<Rightarrow> 'f call list \<Rightarrow> (error + 'f ret) list" where
  "trace s [] = []"
| "trace s (c # cs) = fst (api s c) # trace (snd (api s c)) cs"


text \<open>
  The global refers to an object that has been constructed. The initial state
  satisfies it and every call keeps it.
\<close>

definition wf_process :: "process \<Rightarrow> bool" where
  "wf_process s = (case ctx s of None \<Rightarrow> True | Some a \<Rightarrow> a < length (heap s))"

text \<open>The constructed contexts that the module still refers to.\<close>

definition live_contexts :: "process \<Rightarrow> addr list" where
  "live_contexts s = filter (\<lambda>a. ctx s = Some a) [0..<length (heap s)]"

subsection \<open>The caller's side: listeners\<close>







section \<open>Basic facts\<close>

lemma get_ctx_None:
  "ctx s = None \<Longrightarrow>
   get_ctx s = (length (heap s),
                s\<lparr>heap := heap s @ [ApplicationContext None], ctx := Some (length (heap s))\<rparr>)"
  by (simp add: get_ctx_def new_ApplicationContext_def)

lemma get_ctx_Some: "ctx s = Some a \<Longrightarrow> get_ctx s = (a, s)"
  by (simp add: get_ctx_def)

lemma del_env_keys_filter:
  "del_env_keys ks options = filter (\<lambda>kv. fst kv \<notin> set ks) options"
proof (induction ks arbitrary: options)
  case Nil
  show ?case by simp
next
  case (Cons k ks)
  have absent: "\<not> dict_contains k options \<Longrightarrow> filter (\<lambda>kv. fst kv \<noteq> k) options = options"
    by (auto simp: dict_contains_def dict_keys_def filter_id_conv)
  have "del_env_keys (k # ks) options = del_env_keys ks (dict_del k options)"
    using absent by (simp add: dict_del_def)
  also have "\<dots> = filter (\<lambda>kv. fst kv \<notin> set ks) (filter (\<lambda>kv. fst kv \<noteq> k) options)"
    by (simp add: Cons.IH dict_del_def)
  also have "\<dots> = filter (\<lambda>kv. fst kv \<notin> set (k # ks)) options"
    by (simp add: conj_commute)
  finally show ?case .
qed

lemma init_None:
  "ctx s = None \<Longrightarrow>
   init s options etp =
     (let options' = (if etp then filter (\<lambda>kv. fst kv \<notin> set (dict_keys (environ s))) options
                      else options)
      in (Inr (),
          s\<lparr>heap := heap s @ [ApplicationContext (Some options')], ctx := Some (length (heap s))\<rparr>,
          options'))"
  by (simp add: init_def new_ApplicationContext_def del_env_keys_filter Let_def)

lemma init_Some:
  "ctx s = Some a \<Longrightarrow> init s options etp = (Inl AlreadyInitialized, s, options)"
  by (simp add: init_def)

lemma api_init_None:
  "ctx s = None \<Longrightarrow>
   api s (Call_init options etp) =
     (Inr Ret_None,
      s\<lparr>heap := heap s @ [ApplicationContext (Some
            (if etp then filter (\<lambda>kv. fst kv \<notin> set (dict_keys (environ s))) options
             else options))],
        ctx := Some (length (heap s))\<rparr>)"
  by (simp add: init_None Let_def)

lemma api_init_Some:
  "ctx s = Some a \<Longrightarrow> api s (Call_init options etp) = (Inl AlreadyInitialized, s)"
  by (simp add: init_Some)

lemmas api_unfold =
  get_ctx_None get_ctx_Some create_listener_def create_endpoint_def
  progress_def get_ucp_worker_def get_config_def reset_def

lemma api_wf: "wf_process s \<Longrightarrow> wf_process (snd (api s c))"
proof (cases "ctx s")
  case None
  then show ?thesis
    by (cases c) (simp_all add: api_init_None api_unfold wf_process_def del: api.simps(1))
next
  case (Some a)
  assume "wf_process s"
  with Some show ?thesis
    by (cases c) (simp_all add: api_init_Some api_unfold wf_process_def del: api.simps(1))
qed

lemma api_no_second: "ctx s = Some a \<Longrightarrow> heap (snd (api s c)) = heap s"
  by (cases c) (simp_all add: api_init_Some api_unfold del: api.simps(1))

lemma api_keeps_or_drops: "ctx s = Some a \<Longrightarrow> ctx (snd (api s c)) \<in> {None, Some a}"
  by (cases c) (simp_all add: api_init_Some api_unfold del: api.simps(1))

lemma api_at_most_one_new:
  "length (heap (snd (api s c))) = length (heap s) \<or>
   length (heap (snd (api s c))) = Suc (length (heap s))"
proof (cases "ctx s")
  case None
  then show ?thesis
    by (cases c) (simp_all add: api_init_None api_unfold del: api.simps(1))
next
  case (Some a)
  then show ?thesis by (simp add: api_no_second)
qed


lemma run_wf: "wf_process s \<Longrightarrow> wf_process (run s cs)"
  by (induction cs arbitrary: s) (simp_all add: api_wf)


lemma live_contexts_eq:
  "wf_process s \<Longrightarrow> live_contexts s = (case ctx s of None \<Rightarrow> [] | Some a \<Rightarrow> [a])"
proof (cases "ctx s")
  case None
  then show ?thesis by (simp add: live_contexts_def)
next
  case (Some a)
  assume "wf_process s"
  with Some have a: "a < length (heap s)" by (simp add: wf_process_def)
  have "filter (\<lambda>b. a = b) [0..<n] = (if a < n then [a] else [])" for n
    by (induction n) auto
  with a Some show ?thesis by (simp add: live_contexts_def)
qed

lemma initial_process_wf: "wf_process (initial_process env)"
  by (simp add: wf_process_def initial_process_def)

lemma initial_process_simps [simp]:
  "ctx (initial_process env) = None" "heap (initial_process env) = []"
  "environ (initial_process env) = env"
  by (simp_all add: initial_process_def)

section \<open>The lifecycle of the context\<close>

text \<open>
  Claim C1. \<^verbatim>\<open>init\<close> in every state: while a context is live (\<^verbatim>\<open>_ctx\<close> is not
  \<^verbatim>\<open>None\<close>) it raises the already-initiated error and leaves the state, and so the
  context, as it was; while no context is live it returns normally and \<^verbatim>\<open>_ctx\<close>
  refers to a newly constructed context. From a state without a context, the
  sequence \<^verbatim>\<open>init(); init()\<close> succeeds and then fails, the failing call changing
  nothing, and \<^verbatim>\<open>init(); reset(); init()\<close> succeeds at every call and ends with a
  second, new context.
\<close>

theorem init_only_when_uninitialized:
  "(ctx s \<noteq> None \<longrightarrow>
      fst (init s options etp) = Inl AlreadyInitialized \<and> fst (snd (init s options etp)) = s) \<and>
   (ctx s = None \<longrightarrow>
      fst (init s options etp) = Inr () \<and>
      ctx (fst (snd (init s options etp))) = Some (length (heap s)) \<and>
      length (heap (fst (snd (init s options etp)))) = Suc (length (heap s))) \<and>
   (ctx s = None \<longrightarrow>
      trace s [Call_init o1 e1, Call_init o2 e2 :: 'f call] = [Inr Ret_None, Inl AlreadyInitialized] \<and>
      run s [Call_init o1 e1, Call_init o2 e2 :: 'f call] = run s [Call_init o1 e1 :: 'f call]) \<and>
   (ctx s = None \<longrightarrow>
      trace s [Call_init o1 e1, Call_reset, Call_init o2 e2 :: 'f call] =
        [Inr Ret_None, Inr Ret_None, Inr Ret_None] \<and>
      ctx (run s [Call_init o1 e1, Call_reset, Call_init o2 e2 :: 'f call]) = Some (Suc (length (heap s))))"
proof (intro conjI impI)
  assume "ctx s \<noteq> None"
  then show "fst (init s options etp) = Inl AlreadyInitialized"
    and "fst (snd (init s options etp)) = s"
    by (simp_all add: init_def)
next
  assume none: "ctx s = None"
  show "fst (init s options etp) = Inr ()"
    and "ctx (fst (snd (init s options etp))) = Some (length (heap s))"
    and "length (heap (fst (snd (init s options etp)))) = Suc (length (heap s))"
    by (simp_all add: init_None [OF none] Let_def)
  show "trace s [Call_init o1 e1, Call_init o2 e2] = [Inr Ret_None, Inl AlreadyInitialized]"
    and "run s [Call_init o1 e1, Call_init o2 e2] = run s [Call_init o1 e1]"
    by (simp_all add: api_init_None [OF none] api_init_Some del: api.simps(1))
  show "trace s [Call_init o1 e1, Call_reset, Call_init o2 e2] =
          [Inr Ret_None, Inr Ret_None, Inr Ret_None]"
    and "ctx (run s [Call_init o1 e1, Call_reset, Call_init o2 e2]) = Some (Suc (length (heap s)))"
    by (simp_all add: api_init_None [OF none] api_init_None reset_def del: api.simps(1))
qed

theorem init_only_when_uninitialized_witness:
  "fst (init (initial_process [(''UCX_TLS'', ''tcp'')]) [(''UCX_TLS'', ''all'')] True) = Inr () \<and>
   trace (initial_process []) [Call_init [] False, Call_init [] False :: unit call] =
     [Inr Ret_None, Inl AlreadyInitialized] \<and>
   trace (initial_process []) [Call_init [] False, Call_reset, Call_init [] False :: unit call] =
     [Inr Ret_None, Inr Ret_None, Inr Ret_None] \<and>
   fst (init \<lparr>ctx = Some 0, heap = [ApplicationContext None], environ = []\<rparr> [] False) =
     Inl AlreadyInitialized \<and>
   fst (snd (init \<lparr>ctx = Some 0, heap = [ApplicationContext None], environ = []\<rparr> [] False)) =
     \<lparr>ctx = Some 0, heap = [ApplicationContext None], environ = []\<rparr>"
  using
    init_only_when_uninitialized [of "initial_process [(''UCX_TLS'', ''tcp'')]"
      "[(''UCX_TLS'', ''all'')]" True "[]" False "[]" False, where ?'f = unit]
    init_only_when_uninitialized [of "initial_process []" "[]" False "[]" False "[]" False,
      where ?'f = unit]
    init_only_when_uninitialized [of "\<lparr>ctx = Some 0, heap = [ApplicationContext None], environ = []\<rparr>"
      "[]" False "[]" False "[]" False, where ?'f = unit]
  by (simp del: trace.simps run.simps)

text \<open>
  Claim C10. A failing \<^verbatim>\<open>init\<close> is atomic. Whenever a context is live, for any
  options, any environment and either value of \<^verbatim>\<open>env_takes_precedence\<close>, the call
  raises the already-initiated error, the whole state (the global reference, the
  constructed objects, the environment) is what it was, and the caller's options
  dictionary has the content it had: the test of \<^verbatim>\<open>_ctx\<close> comes before the loop
  that deletes keys and before the construction.
\<close>

theorem init_failure_atomic:
  "ctx s \<noteq> None \<Longrightarrow>
   init s options env_takes_precedence = (Inl AlreadyInitialized, s, options)"
  by (simp add: init_def)

theorem init_failure_atomic_witness:
  "init \<lparr>ctx = Some 0, heap = [ApplicationContext None], environ = [(''UCX_TLS'', ''tcp'')]\<rparr>
        [(''UCX_TLS'', ''all'')] True
   = (Inl AlreadyInitialized,
      \<lparr>ctx = Some 0, heap = [ApplicationContext None], environ = [(''UCX_TLS'', ''tcp'')]\<rparr>,
      [(''UCX_TLS'', ''all'')])"
  using init_failure_atomic
    [of "\<lparr>ctx = Some 0, heap = [ApplicationContext None], environ = [(''UCX_TLS'', ''tcp'')]\<rparr>"
        "[(''UCX_TLS'', ''all'')]" True]
  by simp

text \<open>
  Claim C5. \<^verbatim>\<open>_get_ctx\<close>, the accessor behind every first use, returns a context in
  every state. Without a context it constructs one, calling the constructor with
  no argument, so with the default, empty options, makes \<^verbatim>\<open>_ctx\<close> refer to it and returns it. With a
  context it returns that very object and changes nothing. After any call
  \<^verbatim>\<open>_ctx\<close> refers to the object returned, and a second call right after the first
  returns the same object and leaves the state of the first.
\<close>

theorem get_ctx_idempotent:
  "(ctx s = None \<longrightarrow>
      get_ctx s = (length (heap s),
                   s\<lparr>heap := heap s @ [ApplicationContext None],
                     ctx := Some (length (heap s))\<rparr>) \<and>
      options_of (heap (snd (get_ctx s)) ! fst (get_ctx s)) = []) \<and>
   (\<forall>a. ctx s = Some a \<longrightarrow> get_ctx s = (a, s)) \<and>
   ctx (snd (get_ctx s)) = Some (fst (get_ctx s)) \<and>
   get_ctx (snd (get_ctx s)) = (fst (get_ctx s), snd (get_ctx s))"
proof (cases "ctx s")
  case None
  then show ?thesis by (simp add: get_ctx_None get_ctx_Some options_of_def)
next
  case (Some a)
  then show ?thesis by (simp add: get_ctx_Some)
qed

theorem get_ctx_idempotent_witness:
  "get_ctx (initial_process []) =
     (0, \<lparr>ctx = Some 0, heap = [ApplicationContext None], environ = []\<rparr>) \<and>
   get_ctx \<lparr>ctx = Some 0, heap = [ApplicationContext None], environ = []\<rparr> =
     (0, \<lparr>ctx = Some 0, heap = [ApplicationContext None], environ = []\<rparr>) \<and>
   fst (get_ctx (snd (get_ctx (initial_process [])))) = fst (get_ctx (initial_process []))"
  using get_ctx_idempotent [of "initial_process []"]
    get_ctx_idempotent [of "\<lparr>ctx = Some 0, heap = [ApplicationContext None], environ = []\<rparr>"]
  by (simp add: initial_process_def)




subsection \<open>After a reset, the next use constructs a new context\<close>

lemma reset_then_get_ctx_fresh:
  "get_ctx (reset s) =
     (length (heap s),
      s\<lparr>heap := heap s @ [ApplicationContext None], ctx := Some (length (heap s))\<rparr>)"
  by (simp add: get_ctx_None reset_def)

lemma reset_then_get_ctx_differs:
  "wf_process s \<Longrightarrow> ctx s = Some a \<Longrightarrow> fst (get_ctx (reset s)) \<noteq> a"
  by (simp add: reset_then_get_ctx_fresh wf_process_def)

text \<open>
  Claim C4. At most one context is live at any time. From any well-formed state,
  and so from the state after import, after every sequence of calls to \<^verbatim>\<open>init\<close>,
  \<^verbatim>\<open>_get_ctx\<close>, \<^verbatim>\<open>create_listener\<close>, \<^verbatim>\<open>create_endpoint\<close>, \<^verbatim>\<open>progress\<close>,
  \<^verbatim>\<open>get_ucp_worker\<close>, \<^verbatim>\<open>get_config\<close> and \<^verbatim>\<open>reset\<close>: the constructed contexts
  the module still refers to are none, or exactly the one in \<^verbatim>\<open>_ctx\<close>; and a further
  call made while a context is live constructs nothing and either keeps that
  context or drops it. A call made without a context constructs at most one.
\<close>

theorem at_most_one_live_context:
  "wf_process s \<Longrightarrow>
   wf_process (run s (cs :: 'f call list)) \<and>
   live_contexts (run s cs) = (case ctx (run s cs) of None \<Rightarrow> [] | Some a \<Rightarrow> [a]) \<and>
   length (live_contexts (run s cs)) \<le> 1 \<and>
   (ctx (run s cs) \<noteq> None \<longrightarrow>
      heap (snd (api (run s cs) (c :: 'f call))) = heap (run s cs) \<and>
      ctx (snd (api (run s cs) c)) \<in> {None, ctx (run s cs)}) \<and>
   (ctx (run s cs) = None \<longrightarrow>
      length (heap (snd (api (run s cs) c))) \<le> Suc (length (heap (run s cs))))"
proof -
  assume "wf_process s"
  then have wf: "wf_process (run s cs)"
    by (rule run_wf)
  have live: "live_contexts (run s cs) = (case ctx (run s cs) of None \<Rightarrow> [] | Some a \<Rightarrow> [a])"
    using wf by (rule live_contexts_eq)
  have one: "length (live_contexts (run s cs)) \<le> 1"
    by (simp add: live split: option.split)
  have second: "heap (snd (api (run s cs) c)) = heap (run s cs) \<and>
      ctx (snd (api (run s cs) c)) \<in> {None, ctx (run s cs)}" if "ctx (run s cs) \<noteq> None"
  proof -
    from that obtain a where a: "ctx (run s cs) = Some a" by auto
    from api_no_second [OF a, of c] api_keeps_or_drops [OF a, of c] a show ?thesis
      by simp
  qed
  have new: "length (heap (snd (api (run s cs) c))) \<le> Suc (length (heap (run s cs)))"
    using api_at_most_one_new [of "run s cs" c] by auto
  from wf live one second new show ?thesis
    by blast
qed

theorem at_most_one_live_context_witness:
  "live_contexts (run (initial_process [])
      [Call_progress, Call_init [] False, Call_reset, Call_create_listener () (Some 9000),
       Call_get_ctx :: unit call]) = [1] \<and>
   heap (snd (api (run (initial_process [])
      [Call_progress, Call_init [] False, Call_reset, Call_create_listener () (Some 9000),
       Call_get_ctx :: unit call]) (Call_progress :: unit call))) =
     [ApplicationContext None, ApplicationContext None] \<and>
   live_contexts (run (initial_process []) [Call_init [] False, Call_reset :: unit call]) = [] \<and>
   length (heap (snd (api (run (initial_process []) [Call_init [] False, Call_reset :: unit call])
      (Call_get_ucp_worker :: unit call)))) \<le> 2"
proof -
  have wf: "wf_process (initial_process [])"
    by (rule initial_process_wf)
  have live: "run (initial_process [])
      [Call_progress, Call_init [] False, Call_reset, Call_create_listener () (Some 9000),
       Call_get_ctx :: unit call] =
      \<lparr>ctx = Some 1, heap = [ApplicationContext None, ApplicationContext None], environ = []\<rparr>"
    by (simp add: initial_process_def progress_def create_listener_def get_ctx_def
          new_ApplicationContext_def init_def reset_def)
  have dropped: "run (initial_process []) [Call_init [] False, Call_reset :: unit call] =
      \<lparr>ctx = None, heap = [ApplicationContext (Some [])], environ = []\<rparr>"
    by (simp add: initial_process_def new_ApplicationContext_def init_def reset_def)
  from at_most_one_live_context [OF wf, of
      "[Call_progress, Call_init [] False, Call_reset, Call_create_listener () (Some 9000),
        Call_get_ctx :: unit call]" "Call_progress :: unit call"]
    at_most_one_live_context [OF wf, of "[Call_init [] False, Call_reset :: unit call]"
      "Call_get_ucp_worker :: unit call"]
  show ?thesis
    by (simp add: live dropped del: run.simps api.simps)
qed

section \<open>Resolving the options\<close>

text \<open>
  Claim C3. When \<^verbatim>\<open>init\<close> constructs the context (no context is live), the
  options handed to the constructor are: with \<^verbatim>\<open>env_takes_precedence\<close> true,
  exactly the pairs of the explicit options whose key is not a key of the
  environment, in their order and with their values; with
  \<^verbatim>\<open>env_takes_precedence\<close> false, the explicit options as given, so that no key is
  removed.
\<close>

theorem init_resolved_options:
  "ctx s = None \<Longrightarrow>
   heap (fst (snd (init s options env_takes_precedence))) =
     heap s @ [ApplicationContext (Some
       (if env_takes_precedence
        then filter (\<lambda>kv. fst kv \<notin> set (dict_keys (environ s))) options
        else options))] \<and>
   ctx (fst (snd (init s options env_takes_precedence))) = Some (length (heap s))"
  by (simp add: init_None Let_def)

theorem init_resolved_options_witness:
  "heap (fst (snd (init (initial_process [(''UCX_TLS'', ''tcp''), (''HOME'', ''/root'')])
                        [(''UCX_TLS'', ''all''), (''UCX_LOG_LEVEL'', ''info'')] True))) =
     [ApplicationContext (Some [(''UCX_LOG_LEVEL'', ''info'')])] \<and>
   heap (fst (snd (init (initial_process [(''UCX_TLS'', ''tcp''), (''HOME'', ''/root'')])
                        [(''UCX_TLS'', ''all''), (''UCX_LOG_LEVEL'', ''info'')] False))) =
     [ApplicationContext (Some [(''UCX_TLS'', ''all''), (''UCX_LOG_LEVEL'', ''info'')])]"
  using
    init_resolved_options [of "initial_process [(''UCX_TLS'', ''tcp''), (''HOME'', ''/root'')]"
      "[(''UCX_TLS'', ''all''), (''UCX_LOG_LEVEL'', ''info'')]" True]
    init_resolved_options [of "initial_process [(''UCX_TLS'', ''tcp''), (''HOME'', ''/root'')]"
      "[(''UCX_TLS'', ''all''), (''UCX_LOG_LEVEL'', ''info'')]" False]
  by (simp add: dict_keys_def)

text \<open>
  Claim C2, as amended. \<^verbatim>\<open>init\<close> works on the caller's dictionary itself, not on
  a copy. After the call the caller's dictionary has the content it had when
  \<^verbatim>\<open>env_takes_precedence\<close> is false or when the call fails because a context is
  live; when \<^verbatim>\<open>env_takes_precedence\<close> is true and the call succeeds, the caller's
  dictionary has lost every pair whose key is a key of the environment, and holds
  the other pairs as before.
\<close>

theorem init_caller_options:
  "snd (snd (init s options env_takes_precedence)) =
     (if ctx s = None \<and> env_takes_precedence
      then filter (\<lambda>kv. fst kv \<notin> set (dict_keys (environ s))) options
      else options)"
proof (cases "ctx s")
  case None
  then show ?thesis by (simp add: init_None Let_def)
next
  case (Some a)
  then show ?thesis by (simp add: init_Some)
qed

theorem init_caller_options_witness:
  "snd (snd (init (initial_process [(''UCX_TLS'', ''tcp'')])
                  [(''UCX_TLS'', ''all''), (''UCX_LOG_LEVEL'', ''info'')] True)) =
     [(''UCX_LOG_LEVEL'', ''info'')] \<and>
   snd (snd (init (initial_process [(''UCX_TLS'', ''tcp'')])
                  [(''UCX_TLS'', ''all''), (''UCX_LOG_LEVEL'', ''info'')] False)) =
     [(''UCX_TLS'', ''all''), (''UCX_LOG_LEVEL'', ''info'')] \<and>
   snd (snd (init \<lparr>ctx = Some 0, heap = [ApplicationContext None],
                    environ = [(''UCX_TLS'', ''tcp'')]\<rparr>
                  [(''UCX_TLS'', ''all''), (''UCX_LOG_LEVEL'', ''info'')] True)) =
     [(''UCX_TLS'', ''all''), (''UCX_LOG_LEVEL'', ''info'')]"
  using
    init_caller_options [of "initial_process [(''UCX_TLS'', ''tcp'')]"
      "[(''UCX_TLS'', ''all''), (''UCX_LOG_LEVEL'', ''info'')]" True]
    init_caller_options [of "initial_process [(''UCX_TLS'', ''tcp'')]"
      "[(''UCX_TLS'', ''all''), (''UCX_LOG_LEVEL'', ''info'')]" False]
    init_caller_options
      [of "\<lparr>ctx = Some 0, heap = [ApplicationContext None], environ = [(''UCX_TLS'', ''tcp'')]\<rparr>"
          "[(''UCX_TLS'', ''all''), (''UCX_LOG_LEVEL'', ''info'')]" True]
  by (simp add: dict_keys_def)

text \<open>
  The claim as the spec states it, that the caller's mapping holds the same pairs
  after the call, fails: with \<^verbatim>\<open>UCX_TLS\<close> set in the environment, a call with
  \<^verbatim>\<open>env_takes_precedence=True\<close> removes the caller's \<^verbatim>\<open>UCX_TLS\<close> entry.
\<close>

theorem init_deletes_in_place_counterexample:
  "snd (snd (init (initial_process [(''UCX_TLS'', ''tcp'')])
                  [(''UCX_TLS'', ''all''), (''UCX_LOG_LEVEL'', ''info'')] True)) =
     [(''UCX_LOG_LEVEL'', ''info'')] \<and>
   snd (snd (init (initial_process [(''UCX_TLS'', ''tcp'')])
                  [(''UCX_TLS'', ''all''), (''UCX_LOG_LEVEL'', ''info'')] True)) \<noteq>
     [(''UCX_TLS'', ''all''), (''UCX_LOG_LEVEL'', ''info'')]"
  by (simp add: init_def initial_process_def dict_keys_def dict_contains_def dict_del_def
        new_ApplicationContext_def Let_def)

section \<open>Calls delegated to the context\<close>

text \<open>
  Claim C7. \<^verbatim>\<open>get_config\<close> without a context returns the result of the
  module-level \<^verbatim>\<open>core.get_config()\<close>, which takes no context, and leaves the state as
  it was: \<^verbatim>\<open>_ctx\<close> stays \<^verbatim>\<open>None\<close> and nothing is constructed. With a context it
  returns the result of \<^verbatim>\<open>get_config()\<close> on that context, again without changing
  the state.
\<close>

theorem get_config_by_state:
  "(ctx s = None \<longrightarrow> get_config s = (Core_get_config :: 'f outcome, s)) \<and>
   (\<forall>a. ctx s = Some a \<longrightarrow> get_config s = (OnContext a M_get_config :: 'f outcome, s))"
  by (simp add: get_config_def get_ctx_Some)

theorem get_config_by_state_witness:
  "get_config (initial_process []) = (Core_get_config :: unit outcome, initial_process []) \<and>
   get_config \<lparr>ctx = Some 0, heap = [ApplicationContext (Some [(''TLS'', ''tcp'')])], environ = []\<rparr> =
     (OnContext 0 M_get_config :: unit outcome,
      \<lparr>ctx = Some 0, heap = [ApplicationContext (Some [(''TLS'', ''tcp'')])], environ = []\<rparr>)"
  using get_config_by_state [of "initial_process []", where ?'f = unit]
    get_config_by_state
      [of "\<lparr>ctx = Some 0, heap = [ApplicationContext (Some [(''TLS'', ''tcp'')])], environ = []\<rparr>",
       where ?'f = unit]
  by simp

text \<open>
  Claim C8, as amended. \<^verbatim>\<open>progress\<close>, \<^verbatim>\<open>get_ucp_worker\<close> and \<^verbatim>\<open>create_endpoint\<close>
  called without a context do not fail: each goes through \<^verbatim>\<open>_get_ctx\<close>, which
  constructs a context with the default options and makes \<^verbatim>\<open>_ctx\<close> refer to it,
  and the call is made on that new context. The module raises nothing on these
  paths.
\<close>

theorem lazy_creation_on_first_use:
  "ctx s = None \<Longrightarrow>
   progress s =
     (OnContext (length (heap s)) M_progress :: 'f outcome,
      s\<lparr>heap := heap s @ [ApplicationContext None], ctx := Some (length (heap s))\<rparr>) \<and>
   get_ucp_worker s =
     (OnContext (length (heap s)) M_get_ucp_worker :: 'f outcome,
      s\<lparr>heap := heap s @ [ApplicationContext None], ctx := Some (length (heap s))\<rparr>) \<and>
   create_endpoint s ip_address port =
     (OnContext (length (heap s)) (M_create_endpoint ip_address port) :: 'f outcome,
      s\<lparr>heap := heap s @ [ApplicationContext None], ctx := Some (length (heap s))\<rparr>) \<and>
   trace s [Call_progress :: 'f call] =
     [Inr (Ret_outcome (OnContext (length (heap s)) M_progress))] \<and>
   trace s [Call_get_ucp_worker :: 'f call] =
     [Inr (Ret_outcome (OnContext (length (heap s)) M_get_ucp_worker))] \<and>
   trace s [Call_create_endpoint ip_address port :: 'f call] =
     [Inr (Ret_outcome (OnContext (length (heap s)) (M_create_endpoint ip_address port)))]"
  by (simp add: progress_def get_ucp_worker_def create_endpoint_def get_ctx_None)

theorem lazy_creation_on_first_use_witness:
  "get_ucp_worker (initial_process [(''UCX_TLS'', ''tcp'')]) =
     (OnContext 0 M_get_ucp_worker :: unit outcome,
      \<lparr>ctx = Some 0, heap = [ApplicationContext None], environ = [(''UCX_TLS'', ''tcp'')]\<rparr>)"
  using lazy_creation_on_first_use [of "initial_process [(''UCX_TLS'', ''tcp'')]" "''127.0.0.1''" 9000,
    where ?'f = unit]
  by (simp add: initial_process_def)

text \<open>
  The claim as the spec states it, a failure that constructs nothing, does not
  hold: right after import each of the three calls returns the outcome of the
  method on a context constructed by the call.
\<close>

theorem no_NotInitialized_counterexample:
  "progress (initial_process []) =
     (OnContext 0 M_progress :: unit outcome,
      \<lparr>ctx = Some 0, heap = [ApplicationContext None], environ = []\<rparr>) \<and>
   get_ucp_worker (initial_process []) =
     (OnContext 0 M_get_ucp_worker :: unit outcome,
      \<lparr>ctx = Some 0, heap = [ApplicationContext None], environ = []\<rparr>) \<and>
   create_endpoint (initial_process []) ''127.0.0.1'' 9000 =
     (OnContext 0 (M_create_endpoint ''127.0.0.1'' 9000) :: unit outcome,
      \<lparr>ctx = Some 0, heap = [ApplicationContext None], environ = []\<rparr>) \<and>
   trace (initial_process []) [Call_progress :: unit call] =
     [Inr (Ret_outcome (OnContext 0 M_progress))]"
  by (simp add: progress_def get_ucp_worker_def create_endpoint_def get_ctx_def
        new_ApplicationContext_def initial_process_def)

end
